theory Spec2Isabelle
  imports Main
begin

section \<open>ViCare binary sensors: data model\<close>

text \<open>
  The module homeassistant/components/vicare/binary_sensor.py. A device, and each of
  its components (circuit, burner, compressor), is a handle on the vendor client. What
  a getter of the vendor client answers is not decided by this module: it is the state
  of the vendor service at the moment of the call, here a function \<open>vicare\<close> from the
  handle and the getter called to the outcome of the call.
\<close>

type_synonym device = nat

type_synonym device_config = string

text \<open>
  The exceptions \<open>update\<close> names in its handlers, and \<open>OtherError\<close> for every
  exception that is an instance of none of them (AttributeError, KeyError, a timeout of
  the transport). \<open>RequestsConnectionError\<close> is requests.exceptions.ConnectionError.
\<close>

datatype exn =
    PyViCareNotSupportedFeatureError
  | RequestsConnectionError
  | ValueError
  | PyViCareRateLimitError string
  | PyViCareInvalidDataError string
  | OtherError string

text \<open>The getters the descriptions of this module call on a handle.\<close>

datatype getter =
    getCirculationPumpActive
  | getFrostProtectionActive
  | getActive
  | getSolarPumpActive
  | getDomesticHotWaterChargingActive
  | getDomesticHotWaterCirculationPumpActive
  | getDomesticHotWaterPumpActive

text \<open>
  A call either raises (\<open>Inl\<close>) or returns a value; the value is a boolean or
  Python's None (\<open>bool option\<close>).
\<close>

type_synonym vicare = "device \<Rightarrow> getter \<Rightarrow> exn + bool option"

datatype BinarySensorDeviceClass = RUNNING

text \<open>
  ViCareBinarySensorEntityDescription: the fields the tables of this module set. The
  accessor \<open>value_getter\<close> is a function of the handle; it reads the vendor service.
\<close>

record description =
  key :: string
  translation_key :: string
  icon :: "string option"
  device_class :: "BinarySensorDeviceClass option"
  value_getter :: "vicare \<Rightarrow> device \<Rightarrow> exn + bool option"

definition CIRCUIT_SENSORS :: "description list" where
  "CIRCUIT_SENSORS =
    [ \<lparr> key = ''circulationpump_active'',
        translation_key = ''circulation_pump'',
        icon = Some ''mdi:pump'',
        device_class = Some RUNNING,
        value_getter = (\<lambda>w api. w api getCirculationPumpActive) \<rparr>,
      \<lparr> key = ''frost_protection_active'',
        translation_key = ''frost_protection'',
        icon = Some ''mdi:snowflake'',
        device_class = None,
        value_getter = (\<lambda>w api. w api getFrostProtectionActive) \<rparr> ]"

definition BURNER_SENSORS :: "description list" where
  "BURNER_SENSORS =
    [ \<lparr> key = ''burner_active'',
        translation_key = ''burner'',
        icon = Some ''mdi:gas-burner'',
        device_class = Some RUNNING,
        value_getter = (\<lambda>w api. w api getActive) \<rparr> ]"

definition COMPRESSOR_SENSORS :: "description list" where
  "COMPRESSOR_SENSORS =
    [ \<lparr> key = ''compressor_active'',
        translation_key = ''compressor'',
        icon = None,
        device_class = Some RUNNING,
        value_getter = (\<lambda>w api. w api getActive) \<rparr> ]"

definition GLOBAL_SENSORS :: "description list" where
  "GLOBAL_SENSORS =
    [ \<lparr> key = ''solar_pump_active'',
        translation_key = ''solar_pump'',
        icon = Some ''mdi:pump'',
        device_class = Some RUNNING,
        value_getter = (\<lambda>w api. w api getSolarPumpActive) \<rparr>,
      \<lparr> key = ''charging_active'',
        translation_key = ''domestic_hot_water_charging'',
        icon = None,
        device_class = Some RUNNING,
        value_getter = (\<lambda>w api. w api getDomesticHotWaterChargingActive) \<rparr>,
      \<lparr> key = ''dhw_circulationpump_active'',
        translation_key = ''domestic_hot_water_circulation_pump'',
        icon = Some ''mdi:pump'',
        device_class = Some RUNNING,
        value_getter = (\<lambda>w api. w api getDomesticHotWaterCirculationPumpActive) \<rparr>,
      \<lparr> key = ''dhw_pump_active'',
        translation_key = ''domestic_hot_water_pump'',
        icon = Some ''mdi:pump'',
        device_class = Some RUNNING,
        value_getter = (\<lambda>w api. w api getDomesticHotWaterPumpActive) \<rparr> ]"

subsection \<open>The sensor\<close>

text \<open>
  ViCareBinarySensor. The constructor hands the device configuration, the handle and
  the description's key to the base class ViCareEntity and stores the description.
\<close>

text \<open>
  Modelled from the spec: the fields the base classes keep (entity.py of this component
  and the platform's BinarySensorEntity are not among the sources). The sensor is bound
  to its device or component (the attribute \<open>_api\<close> that \<open>update\<close> reads, here
  \<open>sensor_api\<close>) and holds the last known boolean value or absent (the attribute
  \<open>_attr_is_on\<close>, here \<open>attr_is_on\<close>), absent when the sensor is created. The base
  initialiser is taken to return: it raises nothing.
\<close>

record sensor =
  sensor_api :: device
  sensor_config :: device_config
  unique_id_suffix :: string
  entity_description :: description
  attr_is_on :: "bool option"

definition ViCareBinarySensor :: "device \<Rightarrow> device_config \<Rightarrow> description \<Rightarrow> sensor" where
  "ViCareBinarySensor api cfg d =
    \<lparr> sensor_api = api,
      sensor_config = cfg,
      unique_id_suffix = key d,
      entity_description = d,
      attr_is_on = None \<rparr>"

text \<open>The property \<open>available\<close>: \<open>self._attr_is_on is not None\<close>.\<close>

definition available :: "sensor \<Rightarrow> bool" where
  "available self = (attr_is_on self \<noteq> None)"

text \<open>
  A record of the module's logger: every call of this module is \<open>_LOGGER.error\<close>,
  with a format string and the exception formatted into it, if any.
\<close>

datatype log_record = LOGGER_error string "exn option"

text \<open>
  What one call of \<open>update\<close> leaves behind: the exception that escapes it, if any, the
  sensor after the call, and the records it handed to the logger, in order.
\<close>

record update_result =
  raised :: "exn option"
  sensor_after :: sensor
  logged :: "log_record list"

text \<open>
  \<open>update\<close>: the assignment to \<open>_attr_is_on\<close> runs only when the accessor has
  returned. \<open>suppress\<close> swallows the not-supported error; the four handlers log; any
  other exception has no handler and leaves the method.
\<close>

definition update :: "vicare \<Rightarrow> sensor \<Rightarrow> update_result" where
  "update w self =
    (case value_getter (entity_description self) w (sensor_api self) of
       Inr v \<Rightarrow>
         \<lparr> raised = None, sensor_after = self\<lparr>attr_is_on := v\<rparr>, logged = [] \<rparr>
     | Inl e \<Rightarrow>
         (case e of
            PyViCareNotSupportedFeatureError \<Rightarrow>
              \<lparr> raised = None, sensor_after = self, logged = [] \<rparr>
          | RequestsConnectionError \<Rightarrow>
              \<lparr> raised = None, sensor_after = self,
                logged = [LOGGER_error ''Unable to retrieve data from ViCare server'' None] \<rparr>
          | ValueError \<Rightarrow>
              \<lparr> raised = None, sensor_after = self,
                logged = [LOGGER_error ''Unable to decode data from ViCare server'' None] \<rparr>
          | PyViCareRateLimitError m \<Rightarrow>
              \<lparr> raised = None, sensor_after = self,
                logged = [LOGGER_error ''Vicare API rate limit exceeded: %s'' (Some e)] \<rparr>
          | PyViCareInvalidDataError m \<Rightarrow>
              \<lparr> raised = None, sensor_after = self,
                logged = [LOGGER_error ''Invalid data from Vicare server: %s'' (Some e)] \<rparr>
          | OtherError m \<Rightarrow>
              \<lparr> raised = Some e, sensor_after = self, logged = [] \<rparr>))"

text \<open>
  The host's schedule calls \<open>update\<close> again and again, and each call meets the vendor
  service in the state of that moment: \<open>polls\<close> runs one \<open>update\<close> per state of the
  list, each on the sensor the call before left.
\<close>

fun polls :: "vicare list \<Rightarrow> sensor \<Rightarrow> sensor" where
  "polls [] self = self"
| "polls (w # ws) self = polls ws (sensor_after (update w self))"

text \<open>
  The accessor of a sensor, called in the state \<open>w\<close>, returns a boolean (not None) or
  raises one of the five errors \<open>update\<close> handles.
\<close>

definition boolean_or_handled :: "vicare \<Rightarrow> sensor \<Rightarrow> bool" where
  "boolean_or_handled w self =
    (case value_getter (entity_description self) w (sensor_api self) of
       Inr v \<Rightarrow> v \<noteq> None
     | Inl e \<Rightarrow> (case e of OtherError m \<Rightarrow> False | _ \<Rightarrow> True))"

text \<open>A vendor service that gives every call the same outcome \<open>r\<close>.\<close>

definition answers :: "exn + bool option \<Rightarrow> vicare" where
  "answers r = (\<lambda>api m. r)"

subsection \<open>The entity builder\<close>

text \<open>
  The builder calls four functions of utils.py, which is not among the sources:
  \<open>is_supported\<close>, \<open>get_circuits\<close>, \<open>get_burners\<close> and \<open>get_compressors\<close>. They are
  parameters here, each free to return or to raise, so that what is proved of the
  builder holds whatever they do.
\<close>

record utils =
  is_supported :: "string \<Rightarrow> description \<Rightarrow> device \<Rightarrow> exn + bool"
  get_circuits :: "device \<Rightarrow> exn + device list"
  get_burners :: "device \<Rightarrow> exn + device list"
  get_compressors :: "device \<Rightarrow> exn + device list"

text \<open>
  The comprehension over the descriptions for one handle:
  \<open>[ViCareBinarySensor(component, device_config, description) for description in
  entity_descriptions if is_supported(description.key, description, component)]\<close>.
  Nothing in it catches: an error of \<open>is_supported\<close> ends the comprehension.
\<close>

fun sensors_for :: "utils \<Rightarrow> device \<Rightarrow> device_config \<Rightarrow> description list \<Rightarrow> exn + sensor list" where
  "sensors_for u component cfg [] = Inr []"
| "sensors_for u component cfg (d # ds) =
    (case is_supported u (key d) d component of
       Inl e \<Rightarrow> Inl e
     | Inr supported \<Rightarrow>
         (case sensors_for u component cfg ds of
            Inl e \<Rightarrow> Inl e
          | Inr rest \<Rightarrow>
              Inr (if supported then ViCareBinarySensor component cfg d # rest else rest)))"

definition build_entities_for_device :: "utils \<Rightarrow> device \<Rightarrow> device_config \<Rightarrow> exn + sensor list" where
  "build_entities_for_device u device cfg = sensors_for u device cfg GLOBAL_SENSORS"

text \<open>The outer loop of the comprehension runs over the components, in order.\<close>

fun build_entities_for_component ::
  "utils \<Rightarrow> device list \<Rightarrow> device_config \<Rightarrow> description list \<Rightarrow> exn + sensor list" where
  "build_entities_for_component u [] cfg ds = Inr []"
| "build_entities_for_component u (component # components) cfg ds =
    (case sensors_for u component cfg ds of
       Inl e \<Rightarrow> Inl e
     | Inr here \<Rightarrow>
         (case build_entities_for_component u components cfg ds of
            Inl e \<Rightarrow> Inl e
          | Inr rest \<Rightarrow> Inr (here @ rest)))"

text \<open>
  \<open>_build_entities\<close>: the device's sensors, extended by those of the circuits, the
  burners and the compressors. Each enumeration is called just before its components
  are walked.
\<close>

definition build_entities :: "utils \<Rightarrow> device \<Rightarrow> device_config \<Rightarrow> exn + sensor list" where
  "build_entities u device cfg =
    (case build_entities_for_device u device cfg of
       Inl e \<Rightarrow> Inl e
     | Inr entities \<Rightarrow>
    (case get_circuits u device of
       Inl e \<Rightarrow> Inl e
     | Inr circuits \<Rightarrow>
    (case build_entities_for_component u circuits cfg CIRCUIT_SENSORS of
       Inl e \<Rightarrow> Inl e
     | Inr of_circuits \<Rightarrow>
    (case get_burners u device of
       Inl e \<Rightarrow> Inl e
     | Inr burners \<Rightarrow>
    (case build_entities_for_component u burners cfg BURNER_SENSORS of
       Inl e \<Rightarrow> Inl e
     | Inr of_burners \<Rightarrow>
    (case get_compressors u device of
       Inl e \<Rightarrow> Inl e
     | Inr compressors \<Rightarrow>
    (case build_entities_for_component u compressors cfg COMPRESSOR_SENSORS of
       Inl e \<Rightarrow> Inl e
     | Inr of_compressors \<Rightarrow>
         Inr (entities @ of_circuits @ of_burners @ of_compressors))))))))"

text \<open>A call returns: it raises nothing.\<close>

definition returns :: "exn + 'a \<Rightarrow> bool" where
  "returns r = (case r of Inl e \<Rightarrow> False | Inr x \<Rightarrow> True)"

text \<open>
  Modelled from the spec: \<open>is_supported\<close> of utils.py, which is not among the sources.
  The spec's probe is a query against the vendor client that raises the distinguished
  not-supported error when the feature is absent on the device or component; the
  builder hands it the description and the handle, so the query is the description's
  accessor. A feature whose query returns is supported; one whose query raises
  not-supported is unsupported and is left out. The spec does not say what the probe
  does with any other error: \<open>otherwise\<close> stands for it.
\<close>

definition probe_is_supported ::
  "(exn \<Rightarrow> exn + bool) \<Rightarrow> vicare \<Rightarrow> string \<Rightarrow> description \<Rightarrow> device \<Rightarrow> exn + bool" where
  "probe_is_supported otherwise w name d api =
    (case value_getter d w api of
       Inr v \<Rightarrow> Inr True
     | Inl e \<Rightarrow>
         (case e of
            PyViCareNotSupportedFeatureError \<Rightarrow> Inr False
          | _ \<Rightarrow> otherwise e))"

subsection \<open>Concrete devices and helpers\<close>

text \<open>
  A vendor service on which the frost protection and the solar pump do not exist (their
  getters raise not-supported) and every other getter returns true.
\<close>

definition partly_supported :: vicare where
  "partly_supported api m =
    (if m = getFrostProtectionActive \<or> m = getSolarPumpActive
     then Inl PyViCareNotSupportedFeatureError else Inr (Some True))"

text \<open>An \<open>is_supported\<close> that returns false for the listed keys and true otherwise.\<close>

definition probe_except :: "string list \<Rightarrow> string \<Rightarrow> description \<Rightarrow> device \<Rightarrow> exn + bool" where
  "probe_except unsupported name d api = Inr (name \<notin> set unsupported)"

text \<open>An \<open>is_supported\<close> that raises \<open>e\<close> at every call.\<close>

definition probe_raising :: "exn \<Rightarrow> string \<Rightarrow> description \<Rightarrow> device \<Rightarrow> exn + bool" where
  "probe_raising e name d api = Inl e"

text \<open>Helpers whose enumerations return the given components for every device.\<close>

definition utils_of ::
  "(string \<Rightarrow> description \<Rightarrow> device \<Rightarrow> exn + bool) \<Rightarrow>
   device list \<Rightarrow> device list \<Rightarrow> device list \<Rightarrow> utils" where
  "utils_of probe circuits burners compressors =
    \<lparr> is_supported = probe,
      get_circuits = (\<lambda>device. Inr circuits),
      get_burners = (\<lambda>device. Inr burners),
      get_compressors = (\<lambda>device. Inr compressors) \<rparr>"

section \<open>Availability\<close>

text \<open>
  C4. For every sensor, \<open>available\<close> is true if and only if the state cell holds a
  value, that is, it is not absent.
\<close>

theorem available_iff_present:
  "available self = (\<exists>b. attr_is_on self = Some b)"
  by (simp add: available_def)

section \<open>One poll\<close>

lemma update_returned:
  "value_getter (entity_description self) w (sensor_api self) = Inr v \<Longrightarrow>
   update w self = \<lparr> raised = None, sensor_after = self\<lparr>attr_is_on := v\<rparr>, logged = [] \<rparr>"
  by (simp add: update_def)

lemma update_raised:
  "value_getter (entity_description self) w (sensor_api self) = Inl e \<Longrightarrow>
   sensor_after (update w self) = self"
  by (simp add: update_def split: exn.splits)

text \<open>The record each of the four handlers hands to the logger.\<close>

lemma update_log_messages:
  assumes "value_getter (entity_description self) w (sensor_api self) = Inl e"
  shows "e = RequestsConnectionError \<Longrightarrow>
           logged (update w self) = [LOGGER_error ''Unable to retrieve data from ViCare server'' None]"
    and "e = ValueError \<Longrightarrow>
           logged (update w self) = [LOGGER_error ''Unable to decode data from ViCare server'' None]"
    and "e = PyViCareRateLimitError m \<Longrightarrow>
           logged (update w self) = [LOGGER_error ''Vicare API rate limit exceeded: %s'' (Some e)]"
    and "e = PyViCareInvalidDataError m \<Longrightarrow>
           logged (update w self) = [LOGGER_error ''Invalid data from Vicare server: %s'' (Some e)]"
  using assms by (simp_all add: update_def)

text \<open>
  C1. When the accessor raises a connection error, a ValueError, a rate-limit error or
  an invalid-data error, \<open>update\<close> leaves the sensor, and so its state cell, exactly
  as it was, no exception escapes, and one error record is logged.
\<close>

theorem update_logged_errors_keep_state:
  assumes "value_getter (entity_description self) w (sensor_api self) = Inl e"
    and "e = RequestsConnectionError \<or> e = ValueError
         \<or> (\<exists>m. e = PyViCareRateLimitError m) \<or> (\<exists>m. e = PyViCareInvalidDataError m)"
  shows "sensor_after (update w self) = self
         \<and> raised (update w self) = None
         \<and> (\<exists>fmt arg. logged (update w self) = [LOGGER_error fmt arg])"
  using assms by (auto simp: update_def)

theorem update_logged_errors_keep_state_witness:
  "sensor_after (update (answers (Inl (PyViCareRateLimitError ''429'')))
       (ViCareBinarySensor 1 ''serial'' (hd CIRCUIT_SENSORS)\<lparr>attr_is_on := Some True\<rparr>))
     = ViCareBinarySensor 1 ''serial'' (hd CIRCUIT_SENSORS)\<lparr>attr_is_on := Some True\<rparr>
   \<and> raised (update (answers (Inl (PyViCareRateLimitError ''429'')))
       (ViCareBinarySensor 1 ''serial'' (hd CIRCUIT_SENSORS)\<lparr>attr_is_on := Some True\<rparr>)) = None
   \<and> (\<exists>fmt arg. logged (update (answers (Inl (PyViCareRateLimitError ''429'')))
       (ViCareBinarySensor 1 ''serial'' (hd CIRCUIT_SENSORS)\<lparr>attr_is_on := Some True\<rparr>))
         = [LOGGER_error fmt arg])"
  using update_logged_errors_keep_state
    [of "ViCareBinarySensor 1 ''serial'' (hd CIRCUIT_SENSORS)\<lparr>attr_is_on := Some True\<rparr>"
        "answers (Inl (PyViCareRateLimitError ''429''))" "PyViCareRateLimitError ''429''"]
  by (simp add: answers_def ViCareBinarySensor_def CIRCUIT_SENSORS_def)

text \<open>
  C2. When the accessor raises the not-supported error, \<open>update\<close> leaves the sensor
  exactly as it was, whatever its state cell held (absent included), no exception
  escapes, and nothing is logged.
\<close>

theorem update_not_supported_silent:
  assumes "value_getter (entity_description self) w (sensor_api self)
             = Inl PyViCareNotSupportedFeatureError"
  shows "sensor_after (update w self) = self
         \<and> raised (update w self) = None
         \<and> logged (update w self) = []"
  using assms by (simp add: update_def)

theorem update_not_supported_silent_witness:
  "sensor_after (update partly_supported (ViCareBinarySensor 2 ''serial'' (CIRCUIT_SENSORS ! 1)))
     = ViCareBinarySensor 2 ''serial'' (CIRCUIT_SENSORS ! 1)
   \<and> raised (update partly_supported (ViCareBinarySensor 2 ''serial'' (CIRCUIT_SENSORS ! 1))) = None
   \<and> logged (update partly_supported (ViCareBinarySensor 2 ''serial'' (CIRCUIT_SENSORS ! 1))) = []"
  using update_not_supported_silent
    [of "ViCareBinarySensor 2 ''serial'' (CIRCUIT_SENSORS ! 1)" partly_supported]
  by (simp add: partly_supported_def ViCareBinarySensor_def CIRCUIT_SENSORS_def)

text \<open>
  C3. When the accessor returns a boolean, \<open>update\<close> sets the state cell to exactly
  that boolean and changes nothing else; the sensor is then available and no exception
  escapes. With the boolean true, the state is on.
\<close>

theorem update_sets_returned_boolean:
  assumes "value_getter (entity_description self) w (sensor_api self) = Inr (Some b)"
  shows "sensor_after (update w self) = self\<lparr>attr_is_on := Some b\<rparr>
         \<and> attr_is_on (sensor_after (update w self)) = Some b
         \<and> available (sensor_after (update w self))
         \<and> raised (update w self) = None"
  using assms by (simp add: update_def available_def)

theorem update_sets_returned_boolean_witness:
  "attr_is_on (sensor_after (update (answers (Inr (Some True)))
       (ViCareBinarySensor 1 ''serial'' (hd GLOBAL_SENSORS)))) = Some True
   \<and> available (sensor_after (update (answers (Inr (Some True)))
       (ViCareBinarySensor 1 ''serial'' (hd GLOBAL_SENSORS))))
   \<and> raised (update (answers (Inr (Some True)))
       (ViCareBinarySensor 1 ''serial'' (hd GLOBAL_SENSORS))) = None"
  using update_sets_returned_boolean
    [of "ViCareBinarySensor 1 ''serial'' (hd GLOBAL_SENSORS)" "answers (Inr (Some True))" True]
  by (simp add: answers_def ViCareBinarySensor_def GLOBAL_SENSORS_def available_def update_def)

text \<open>
  C10. A call of \<open>update\<close> changes at most the state cell: the sensor after the call
  is the sensor before it with only \<open>attr_is_on\<close> replaced, so the bound handle, the
  entity description (key, icon, translation key, device class, accessor) and the
  other fields are those of before, whether the accessor returned or raised.
\<close>

theorem update_frame:
  "sensor_after (update w self) = self\<lparr>attr_is_on := attr_is_on (sensor_after (update w self))\<rparr>
   \<and> sensor_api (sensor_after (update w self)) = sensor_api self
   \<and> sensor_config (sensor_after (update w self)) = sensor_config self
   \<and> unique_id_suffix (sensor_after (update w self)) = unique_id_suffix self
   \<and> entity_description (sensor_after (update w self)) = entity_description self"
  by (simp add: update_def split: sum.splits exn.splits)

section \<open>Repeated polls\<close>

lemma update_keeps_accessor:
  "value_getter (entity_description (sensor_after (update w self))) w'
      (sensor_api (sensor_after (update w self)))
   = value_getter (entity_description self) w' (sensor_api self)"
  by (simp add: update_def split: sum.splits exn.splits)

text \<open>
  C7. Two polls that meet the same accessor outcome (the same value returned or the
  same error raised) leave the same state: the sensor after the second poll is the
  sensor after the first.
\<close>

theorem update_twice_same_state:
  assumes "value_getter (entity_description self) w2 (sensor_api self)
           = value_getter (entity_description self) w1 (sensor_api self)"
  shows "sensor_after (update w2 (sensor_after (update w1 self))) = sensor_after (update w1 self)"
proof (cases "value_getter (entity_description self) w1 (sensor_api self)")
  case (Inl e)
  then have "sensor_after (update w1 self) = self"
    by (rule update_raised)
  moreover from Inl assms have "sensor_after (update w2 self) = self"
    by (simp add: update_raised)
  ultimately show ?thesis by simp
next
  case (Inr v)
  then have one: "sensor_after (update w1 self) = self\<lparr>attr_is_on := v\<rparr>"
    by (simp add: update_returned)
  from Inr assms have "value_getter (entity_description (self\<lparr>attr_is_on := v\<rparr>)) w2
      (sensor_api (self\<lparr>attr_is_on := v\<rparr>)) = Inr v"
    by simp
  then have "sensor_after (update w2 (self\<lparr>attr_is_on := v\<rparr>)) = self\<lparr>attr_is_on := v\<rparr>"
    by (simp add: update_returned)
  with one show ?thesis by simp
qed

theorem update_twice_same_state_witness:
  "sensor_after (update partly_supported (sensor_after (update (answers (Inr (Some True)))
       (ViCareBinarySensor 2 ''serial'' (hd CIRCUIT_SENSORS)))))
   = sensor_after (update (answers (Inr (Some True)))
       (ViCareBinarySensor 2 ''serial'' (hd CIRCUIT_SENSORS)))
   \<and> attr_is_on (sensor_after (update (answers (Inr (Some True)))
       (ViCareBinarySensor 2 ''serial'' (hd CIRCUIT_SENSORS)))) = Some True"
  using update_twice_same_state
    [of "ViCareBinarySensor 2 ''serial'' (hd CIRCUIT_SENSORS)" partly_supported
        "answers (Inr (Some True))"]
  by (simp add: answers_def partly_supported_def ViCareBinarySensor_def CIRCUIT_SENSORS_def
      update_def)

lemma boolean_or_handled_after:
  "boolean_or_handled w' (sensor_after (update w self)) = boolean_or_handled w' self"
  by (simp add: boolean_or_handled_def update_keeps_accessor)

lemma update_keeps_available:
  "boolean_or_handled w self \<Longrightarrow> available self \<Longrightarrow> available (sensor_after (update w self))"
  by (auto simp: boolean_or_handled_def update_def available_def split: sum.splits exn.splits)

text \<open>
  C9. Provided the accessor, at every poll, returns a boolean (never None) or raises
  one of the five handled errors, a sensor that is available stays available through
  any sequence of polls: \<open>update\<close> never resets a present state cell to absent.
\<close>

theorem polls_keep_available:
  assumes "available self" and "\<forall>w \<in> set ws. boolean_or_handled w self"
  shows "available (polls ws self)"
  using assms
proof (induction ws arbitrary: self)
  case Nil
  then show ?case by simp
next
  case (Cons w ws)
  from Cons.prems have "available (sensor_after (update w self))"
    by (simp add: update_keeps_available)
  moreover from Cons.prems
  have "\<forall>w' \<in> set ws. boolean_or_handled w' (sensor_after (update w self))"
    by (simp add: boolean_or_handled_after)
  ultimately show ?case
    using Cons.IH by simp
qed

theorem polls_keep_available_witness:
  "available (ViCareBinarySensor 2 ''serial'' (CIRCUIT_SENSORS ! 1)\<lparr>attr_is_on := Some True\<rparr>)
   \<and> available (polls [answers (Inr (Some False)), answers (Inl ValueError), partly_supported]
        (ViCareBinarySensor 2 ''serial'' (CIRCUIT_SENSORS ! 1)\<lparr>attr_is_on := Some True\<rparr>))"
  using polls_keep_available
    [of "ViCareBinarySensor 2 ''serial'' (CIRCUIT_SENSORS ! 1)\<lparr>attr_is_on := Some True\<rparr>"
        "[answers (Inr (Some False)), answers (Inl ValueError), partly_supported]"]
  by (simp add: available_def boolean_or_handled_def answers_def partly_supported_def
      ViCareBinarySensor_def CIRCUIT_SENSORS_def)

section \<open>The entity builder\<close>

lemma returns_Inr_iff: "returns r = (\<exists>x. r = Inr x)"
  by (cases r) (simp_all add: returns_def)

lemma sensors_for_Inr_iff:
  "sensors_for u c cfg ds = Inr es \<longleftrightarrow>
     (\<forall>d \<in> set ds. returns (is_supported u (key d) d c))
     \<and> es = map (ViCareBinarySensor c cfg) (filter (\<lambda>d. is_supported u (key d) d c = Inr True) ds)"
proof (induction ds arbitrary: es)
  case Nil
  show ?case by auto
next
  case (Cons d ds)
  show ?case
  proof (cases "is_supported u (key d) d c")
    case (Inl e)
    then show ?thesis by (simp add: returns_def)
  next
    case (Inr b)
    show ?thesis
    proof (cases "sensors_for u c cfg ds")
      case (Inl e)
      with Cons.IH Inr show ?thesis by (auto simp: returns_def)
    next
      case inner: (Inr rest)
      with Cons.IH [of rest] Inr show ?thesis by (auto simp: returns_def)
    qed
  qed
qed

lemma returns_sensors_for:
  "returns (sensors_for u c cfg ds) = (\<forall>d \<in> set ds. returns (is_supported u (key d) d c))"
  by (simp add: returns_Inr_iff [of "sensors_for u c cfg ds"] sensors_for_Inr_iff)

lemma sensors_for_supported:
  assumes "sensors_for u c cfg ds = Inr es" and "s \<in> set es"
  shows "entity_description s \<in> set ds \<and> sensor_api s = c
         \<and> is_supported u (key (entity_description s)) (entity_description s) c = Inr True"
  using assms by (auto simp: sensors_for_Inr_iff ViCareBinarySensor_def)

lemma returns_for_component:
  "returns (build_entities_for_component u cs cfg ds)
     = (\<forall>c \<in> set cs. \<forall>d \<in> set ds. returns (is_supported u (key d) d c))"
proof (induction cs)
  case Nil
  show ?case by (simp add: returns_def)
next
  case (Cons c cs)
  show ?case
  proof (cases "sensors_for u c cfg ds")
    case (Inl e)
    then have "\<not> returns (sensors_for u c cfg ds)"
      by (simp add: returns_def)
    then have here: "\<not> (\<forall>d \<in> set ds. returns (is_supported u (key d) d c))"
      by (simp add: returns_sensors_for)
    from Inl have "\<not> returns (build_entities_for_component u (c # cs) cfg ds)"
      by (simp add: returns_def)
    with here show ?thesis by simp
  next
    case (Inr here)
    then have "returns (sensors_for u c cfg ds)"
      by (simp add: returns_def)
    then have first: "\<forall>d \<in> set ds. returns (is_supported u (key d) d c)"
      by (simp add: returns_sensors_for)
    from Inr have "returns (build_entities_for_component u (c # cs) cfg ds)
        = returns (build_entities_for_component u cs cfg ds)"
      by (simp add: returns_def split: sum.splits)
    with first Cons.IH show ?thesis by simp
  qed
qed

lemma for_component_supported:
  assumes "build_entities_for_component u cs cfg ds = Inr es" and "s \<in> set es"
  shows "entity_description s \<in> set ds \<and> sensor_api s \<in> set cs
         \<and> is_supported u (key (entity_description s)) (entity_description s) (sensor_api s) = Inr True"
  using assms
proof (induction cs arbitrary: es)
  case Nil
  then show ?case by simp
next
  case (Cons c cs)
  from Cons.prems(1) obtain here rest where
    here: "sensors_for u c cfg ds = Inr here" and
    rest: "build_entities_for_component u cs cfg ds = Inr rest" and
    es: "es = here @ rest"
    by (auto split: sum.splits)
  from es Cons.prems(2) have "s \<in> set here \<or> s \<in> set rest" by simp
  then show ?case
  proof
    assume "s \<in> set here"
    with here show ?thesis using sensors_for_supported by fastforce
  next
    assume "s \<in> set rest"
    with rest Cons.IH show ?thesis by fastforce
  qed
qed

text \<open>
  C5. When the device-level builder returns its list: a description of GLOBAL_SENSORS
  for which \<open>is_supported\<close> returned false on the device has no sensor in the list,
  and every sensor of the list is bound to the device and carries a description of
  GLOBAL_SENSORS for which \<open>is_supported\<close> returned true. (When a call of
  \<open>is_supported\<close> raises, the builder returns no list at all.)
\<close>

theorem device_sensors_only_supported:
  assumes "build_entities_for_device u device cfg = Inr es"
  shows "(\<forall>d \<in> set GLOBAL_SENSORS. is_supported u (key d) d device = Inr False \<longrightarrow>
            \<not> (\<exists>s \<in> set es. entity_description s = d))
         \<and> (\<forall>s \<in> set es. entity_description s \<in> set GLOBAL_SENSORS \<and> sensor_api s = device
              \<and> is_supported u (key (entity_description s)) (entity_description s) device = Inr True)"
proof -
  from assms have run: "sensors_for u device cfg GLOBAL_SENSORS = Inr es"
    by (simp add: build_entities_for_device_def)
  have created: "\<forall>s \<in> set es. entity_description s \<in> set GLOBAL_SENSORS \<and> sensor_api s = device
      \<and> is_supported u (key (entity_description s)) (entity_description s) device = Inr True"
    using sensors_for_supported [OF run] by blast
  then have "\<forall>d \<in> set GLOBAL_SENSORS. is_supported u (key d) d device = Inr False \<longrightarrow>
      \<not> (\<exists>s \<in> set es. entity_description s = d)"
    by auto
  with created show ?thesis by blast
qed

theorem device_sensors_only_supported_witness:
  "build_entities_for_device (utils_of (probe_except [''solar_pump_active'']) [2] [] []) 1 ''serial''
     = Inr (map (ViCareBinarySensor 1 ''serial'') (tl GLOBAL_SENSORS))
   \<and> is_supported (utils_of (probe_except [''solar_pump_active'']) [2] [] [])
        (key (hd GLOBAL_SENSORS)) (hd GLOBAL_SENSORS) 1 = Inr False
   \<and> \<not> (\<exists>s \<in> set (map (ViCareBinarySensor 1 ''serial'') (tl GLOBAL_SENSORS)).
          entity_description s = hd GLOBAL_SENSORS)"
  using device_sensors_only_supported
    [of "utils_of (probe_except [''solar_pump_active'']) [2] [] []" 1 "''serial''"
        "map (ViCareBinarySensor 1 ''serial'') (tl GLOBAL_SENSORS)"]
  by (simp add: build_entities_for_device_def GLOBAL_SENSORS_def utils_of_def
      probe_except_def)

text \<open>
  C6. One circuit, on which the query for the circulation pump returns and the query
  for the frost protection raises not-supported: with \<open>is_supported\<close> the probe of
  the spec, the builder yields exactly one sensor for that circuit, the one of the
  description with key circulationpump_active.
\<close>

theorem one_circuit_one_sensor:
  assumes "is_supported u = probe_is_supported otherwise w"
    and "w circuit getCirculationPumpActive = Inr v"
    and "w circuit getFrostProtectionActive = Inl PyViCareNotSupportedFeatureError"
  shows "build_entities_for_component u [circuit] cfg CIRCUIT_SENSORS
           = Inr [ViCareBinarySensor circuit cfg (hd CIRCUIT_SENSORS)]
         \<and> key (hd CIRCUIT_SENSORS) = ''circulationpump_active''"
  using assms by (simp add: CIRCUIT_SENSORS_def probe_is_supported_def)

theorem one_circuit_one_sensor_witness:
  "build_entities_for_component (utils_of (probe_is_supported Inl partly_supported) [2] [] [])
       [2] ''serial'' CIRCUIT_SENSORS
     = Inr [ViCareBinarySensor 2 ''serial'' (hd CIRCUIT_SENSORS)]
   \<and> key (hd CIRCUIT_SENSORS) = ''circulationpump_active''"
  using one_circuit_one_sensor
    [of "utils_of (probe_is_supported Inl partly_supported) [2] [] []" Inl partly_supported
        2 "Some True" "''serial''"]
  by (simp add: utils_of_def partly_supported_def)

lemma build_entities_parts:
  "build_entities u device cfg = Inr es \<longleftrightarrow>
     (\<exists>entities circuits of_circuits burners of_burners compressors of_compressors.
        build_entities_for_device u device cfg = Inr entities
        \<and> get_circuits u device = Inr circuits
        \<and> build_entities_for_component u circuits cfg CIRCUIT_SENSORS = Inr of_circuits
        \<and> get_burners u device = Inr burners
        \<and> build_entities_for_component u burners cfg BURNER_SENSORS = Inr of_burners
        \<and> get_compressors u device = Inr compressors
        \<and> build_entities_for_component u compressors cfg COMPRESSOR_SENSORS = Inr of_compressors
        \<and> es = entities @ of_circuits @ of_burners @ of_compressors)"
  by (auto simp: build_entities_def split: sum.splits)

lemma returns_build_entities:
  "returns (build_entities u device cfg) =
     (returns (build_entities_for_device u device cfg)
      \<and> (\<exists>circuits. get_circuits u device = Inr circuits
            \<and> returns (build_entities_for_component u circuits cfg CIRCUIT_SENSORS))
      \<and> (\<exists>burners. get_burners u device = Inr burners
            \<and> returns (build_entities_for_component u burners cfg BURNER_SENSORS))
      \<and> (\<exists>compressors. get_compressors u device = Inr compressors
            \<and> returns (build_entities_for_component u compressors cfg COMPRESSOR_SENSORS)))"
  by (auto simp: build_entities_def returns_def split: sum.splits)

lemma build_entities_supported:
  assumes "build_entities u device cfg = Inr es" and "s \<in> set es"
  shows "is_supported u (key (entity_description s)) (entity_description s) (sensor_api s) = Inr True"
proof -
  from assms(1) obtain entities circuits of_circuits burners of_burners compressors of_compressors
    where dev: "sensors_for u device cfg GLOBAL_SENSORS = Inr entities"
      and circ: "build_entities_for_component u circuits cfg CIRCUIT_SENSORS = Inr of_circuits"
      and burn: "build_entities_for_component u burners cfg BURNER_SENSORS = Inr of_burners"
      and comp: "build_entities_for_component u compressors cfg COMPRESSOR_SENSORS = Inr of_compressors"
      and es: "es = entities @ of_circuits @ of_burners @ of_compressors"
    unfolding build_entities_parts build_entities_for_device_def by blast
  from es assms(2) consider "s \<in> set entities" | "s \<in> set of_circuits"
    | "s \<in> set of_burners" | "s \<in> set of_compressors"
    by auto
  then show ?thesis
  proof cases
    case 1
    with dev show ?thesis using sensors_for_supported by fastforce
  next
    case 2
    with circ show ?thesis using for_component_supported by blast
  next
    case 3
    with burn show ?thesis using for_component_supported by blast
  next
    case 4
    with comp show ?thesis using for_component_supported by blast
  qed
qed

lemma sensors_for_error:
  "sensors_for u c cfg ds = Inl e \<Longrightarrow> \<exists>d \<in> set ds. is_supported u (key d) d c = Inl e"
proof (induction ds)
  case Nil
  then show ?case by simp
next
  case (Cons d ds)
  show ?case
  proof (cases "is_supported u (key d) d c")
    case (Inl e')
    with Cons.prems show ?thesis by simp
  next
    case (Inr b)
    with Cons.prems have "sensors_for u c cfg ds = Inl e"
      by (simp split: sum.splits)
    with Cons.IH show ?thesis by simp
  qed
qed

lemma for_component_error:
  "build_entities_for_component u cs cfg ds = Inl e \<Longrightarrow>
   \<exists>c \<in> set cs. \<exists>d \<in> set ds. is_supported u (key d) d c = Inl e"
proof (induction cs)
  case Nil
  then show ?case by simp
next
  case (Cons c cs)
  show ?case
  proof (cases "sensors_for u c cfg ds")
    case (Inl e')
    with Cons.prems have "sensors_for u c cfg ds = Inl e" by simp
    then show ?thesis using sensors_for_error by fastforce
  next
    case (Inr here)
    with Cons.prems have "build_entities_for_component u cs cfg ds = Inl e"
      by (simp split: sum.splits)
    with Cons.IH show ?thesis by simp
  qed
qed

lemma build_entities_error_stage:
  "build_entities u device cfg = Inl e \<Longrightarrow>
     build_entities_for_device u device cfg = Inl e
     \<or> get_circuits u device = Inl e
     \<or> (\<exists>circuits. get_circuits u device = Inr circuits
           \<and> build_entities_for_component u circuits cfg CIRCUIT_SENSORS = Inl e)
     \<or> get_burners u device = Inl e
     \<or> (\<exists>burners. get_burners u device = Inr burners
           \<and> build_entities_for_component u burners cfg BURNER_SENSORS = Inl e)
     \<or> get_compressors u device = Inl e
     \<or> (\<exists>compressors. get_compressors u device = Inr compressors
           \<and> build_entities_for_component u compressors cfg COMPRESSOR_SENSORS = Inl e)"
  by (auto simp: build_entities_def split: sum.splits)

lemma build_entities_error:
  assumes "build_entities u device cfg = Inl e"
  shows "(\<exists>d \<in> set GLOBAL_SENSORS. is_supported u (key d) d device = Inl e)
     \<or> get_circuits u device = Inl e
     \<or> (\<exists>circuits. get_circuits u device = Inr circuits
           \<and> (\<exists>c \<in> set circuits. \<exists>d \<in> set CIRCUIT_SENSORS. is_supported u (key d) d c = Inl e))
     \<or> get_burners u device = Inl e
     \<or> (\<exists>burners. get_burners u device = Inr burners
           \<and> (\<exists>c \<in> set burners. \<exists>d \<in> set BURNER_SENSORS. is_supported u (key d) d c = Inl e))
     \<or> get_compressors u device = Inl e
     \<or> (\<exists>compressors. get_compressors u device = Inr compressors
           \<and> (\<exists>c \<in> set compressors. \<exists>d \<in> set COMPRESSOR_SENSORS.
                 is_supported u (key d) d c = Inl e))"
proof -
  note stage = build_entities_error_stage [OF assms]
  have dev: "build_entities_for_device u device cfg = Inl e \<Longrightarrow>
      \<exists>d \<in> set GLOBAL_SENSORS. is_supported u (key d) d device = Inl e"
    unfolding build_entities_for_device_def by (rule sensors_for_error)
  from stage show ?thesis
    by (elim disjE exE conjE) (simp_all add: dev for_component_error)
qed

text \<open>
  C8, as stated, fails: the builder has no handler, so an error raised by
  \<open>is_supported\<close> leaves \<open>_build_entities\<close>. Here \<open>is_supported\<close> raises a
  rate-limit error on a device without components.
\<close>

theorem build_entities_propagates_probe_error:
  "build_entities (utils_of (probe_raising (PyViCareRateLimitError ''429'')) [] [] []) 1 ''serial''
     = Inl (PyViCareRateLimitError ''429'')"
  by (simp add: build_entities_def build_entities_for_device_def GLOBAL_SENSORS_def
      utils_of_def probe_raising_def)

text \<open>
  C8, amended. The construction of a sensor taken to raise nothing,
  \<open>_build_entities\<close> returns exactly when every call it makes returns:
  \<open>is_supported\<close> for each global description on the device, each of the three
  enumerations, and \<open>is_supported\<close> for each enumerated component and each
  description of its table. The list it then returns holds only sensors whose
  \<open>is_supported\<close> call returned true: a feature reported unsupported is left out, not
  raised. When it raises, the error that leaves it is the very error one of those
  calls raised: the builder neither absorbs nor replaces it.
\<close>

theorem build_entities_returns_iff_helpers_return:
  "returns (build_entities u device cfg) =
     ((\<forall>d \<in> set GLOBAL_SENSORS. returns (is_supported u (key d) d device))
      \<and> (\<exists>circuits. get_circuits u device = Inr circuits
            \<and> (\<forall>c \<in> set circuits. \<forall>d \<in> set CIRCUIT_SENSORS. returns (is_supported u (key d) d c)))
      \<and> (\<exists>burners. get_burners u device = Inr burners
            \<and> (\<forall>c \<in> set burners. \<forall>d \<in> set BURNER_SENSORS. returns (is_supported u (key d) d c)))
      \<and> (\<exists>compressors. get_compressors u device = Inr compressors
            \<and> (\<forall>c \<in> set compressors. \<forall>d \<in> set COMPRESSOR_SENSORS.
                  returns (is_supported u (key d) d c))))
   \<and> (\<forall>es. build_entities u device cfg = Inr es \<longrightarrow>
         (\<forall>s \<in> set es.
            is_supported u (key (entity_description s)) (entity_description s) (sensor_api s)
              = Inr True))
   \<and> (\<forall>e. build_entities u device cfg = Inl e \<longrightarrow>
         (\<exists>d \<in> set GLOBAL_SENSORS. is_supported u (key d) d device = Inl e)
         \<or> get_circuits u device = Inl e
         \<or> (\<exists>circuits. get_circuits u device = Inr circuits
               \<and> (\<exists>c \<in> set circuits. \<exists>d \<in> set CIRCUIT_SENSORS.
                     is_supported u (key d) d c = Inl e))
         \<or> get_burners u device = Inl e
         \<or> (\<exists>burners. get_burners u device = Inr burners
               \<and> (\<exists>c \<in> set burners. \<exists>d \<in> set BURNER_SENSORS.
                     is_supported u (key d) d c = Inl e))
         \<or> get_compressors u device = Inl e
         \<or> (\<exists>compressors. get_compressors u device = Inr compressors
               \<and> (\<exists>c \<in> set compressors. \<exists>d \<in> set COMPRESSOR_SENSORS.
                     is_supported u (key d) d c = Inl e)))"
proof (intro conjI)
  show "returns (build_entities u device cfg) =
     ((\<forall>d \<in> set GLOBAL_SENSORS. returns (is_supported u (key d) d device))
      \<and> (\<exists>circuits. get_circuits u device = Inr circuits
            \<and> (\<forall>c \<in> set circuits. \<forall>d \<in> set CIRCUIT_SENSORS. returns (is_supported u (key d) d c)))
      \<and> (\<exists>burners. get_burners u device = Inr burners
            \<and> (\<forall>c \<in> set burners. \<forall>d \<in> set BURNER_SENSORS. returns (is_supported u (key d) d c)))
      \<and> (\<exists>compressors. get_compressors u device = Inr compressors
            \<and> (\<forall>c \<in> set compressors. \<forall>d \<in> set COMPRESSOR_SENSORS.
                  returns (is_supported u (key d) d c))))"
    by (simp only: returns_build_entities build_entities_for_device_def returns_sensors_for
        returns_for_component)
next
  show "\<forall>es. build_entities u device cfg = Inr es \<longrightarrow>
         (\<forall>s \<in> set es.
            is_supported u (key (entity_description s)) (entity_description s) (sensor_api s)
              = Inr True)"
    using build_entities_supported by blast
next
  show "\<forall>e. build_entities u device cfg = Inl e \<longrightarrow>
         (\<exists>d \<in> set GLOBAL_SENSORS. is_supported u (key d) d device = Inl e)
         \<or> get_circuits u device = Inl e
         \<or> (\<exists>circuits. get_circuits u device = Inr circuits
               \<and> (\<exists>c \<in> set circuits. \<exists>d \<in> set CIRCUIT_SENSORS.
                     is_supported u (key d) d c = Inl e))
         \<or> get_burners u device = Inl e
         \<or> (\<exists>burners. get_burners u device = Inr burners
               \<and> (\<exists>c \<in> set burners. \<exists>d \<in> set BURNER_SENSORS.
                     is_supported u (key d) d c = Inl e))
         \<or> get_compressors u device = Inl e
         \<or> (\<exists>compressors. get_compressors u device = Inr compressors
               \<and> (\<exists>c \<in> set compressors. \<exists>d \<in> set COMPRESSOR_SENSORS.
                     is_supported u (key d) d c = Inl e))"
    by (intro allI impI) (rule build_entities_error)
qed

theorem build_entities_returns_iff_helpers_return_witness:
  "returns (build_entities (utils_of (probe_except [''solar_pump_active'', ''frost_protection_active'']) [2] [3] []) 1 ''serial'')
   \<and> build_entities (utils_of (probe_except [''solar_pump_active'', ''frost_protection_active'']) [2] [3] []) 1 ''serial''
       = Inr (map (ViCareBinarySensor 1 ''serial'') (tl GLOBAL_SENSORS)
              @ [ViCareBinarySensor 2 ''serial'' (hd CIRCUIT_SENSORS),
                 ViCareBinarySensor 3 ''serial'' (hd BURNER_SENSORS)])
   \<and> build_entities (utils_of (probe_raising RequestsConnectionError) [2] [] []) 1 ''serial''
       = Inl RequestsConnectionError
   \<and> \<not> returns (build_entities (utils_of (probe_raising RequestsConnectionError) [2] [] []) 1 ''serial'')"
  using build_entities_returns_iff_helpers_return
    [of "utils_of (probe_except [''solar_pump_active'', ''frost_protection_active'']) [2] [3] []" 1 "''serial''"]
    build_entities_returns_iff_helpers_return
    [of "utils_of (probe_raising RequestsConnectionError) [2] [] []" 1 "''serial''"]
  by (simp add: build_entities_def build_entities_for_device_def GLOBAL_SENSORS_def
      CIRCUIT_SENSORS_def BURNER_SENSORS_def COMPRESSOR_SENSORS_def utils_of_def
      probe_except_def probe_raising_def returns_def)

end
